theory Spec2Isabelle
  imports
    Complex_Main
    "HOL-Library.Char_ord"
    "HOL-Library.List_Lexorder"
    "HOL-Library.Option_ord"
    "HOL-Library.Sublist"
    "HOL-Library.Multiset"
begin

section \<open>Student records\<close>

text \<open>
  The dashboard of \<^verbatim>\<open>app.py\<close> works on one pandas table read from
  \<^verbatim>\<open>processed_student_data.csv\<close>. A row of that table is a record; the table is the
  list of its rows, in file order.

  A numeric cell is a \<open>real option\<close>: \<open>None\<close> stands for pandas' NaN (an empty cell of the
  file), \<open>Some v\<close> for the number \<open>v\<close>. Floating-point numbers are idealised as reals, so
  rounding is not part of the model. The categorical cells (\<open>Result\<close>,
  \<open>financial_aid\<close>, \<open>english_level\<close>) are strings.
\<close>

record student =
  student_id :: string
  IQ_test_score :: "real option"
  English_test_score :: "real option"
  technical_test_score :: "real option"
  Soft_skills_Score :: "real option"
  gpa :: "real option"
  Result :: string
  financial_aid :: string
  english_level :: string

text \<open>The table after \<^verbatim>\<open>load_data\<close>: every row carries the two derived columns.\<close>

record scored_student = student +
  total_score :: "real option"
  risk_score :: "real option"

section \<open>pandas arithmetic on cells\<close>

text \<open>\<^verbatim>\<open>dropna\<close>: the defined values of a sequence of cells, in order.\<close>

fun dropna :: "'a option list \<Rightarrow> 'a list" where
  "dropna [] = []"
| "dropna (None # xs) = dropna xs"
| "dropna (Some v # xs) = v # dropna xs"

text \<open>
  \<^verbatim>\<open>.mean()\<close> with pandas' default \<^verbatim>\<open>skipna=True\<close>: the mean of the defined values, NaN
  when there is none. Both \<^verbatim>\<open>DataFrame.mean(axis=1)\<close> (line 25) and the grouped
  \<^verbatim>\<open>.mean()\<close> (line 112) are called without a \<^verbatim>\<open>skipna\<close> argument.
\<close>

definition mean_skipna :: "real option list \<Rightarrow> real option" where
  "mean_skipna xs =
     (let vs = dropna xs
      in if vs = [] then None else Some (sum_list vs / real (length vs)))"

text \<open>Elementwise arithmetic: NaN in an operand gives NaN in the result.\<close>

definition rsub :: "real \<Rightarrow> real option \<Rightarrow> real option" where
  "rsub c x = (case x of None \<Rightarrow> None | Some v \<Rightarrow> Some (c - v))"

definition mul :: "real option \<Rightarrow> real \<Rightarrow> real option" where
  "mul x c = (case x of None \<Rightarrow> None | Some v \<Rightarrow> Some (v * c))"

definition add :: "real option \<Rightarrow> real option \<Rightarrow> real option" where
  "add x y =
     (case x of None \<Rightarrow> None
      | Some a \<Rightarrow> (case y of None \<Rightarrow> None | Some b \<Rightarrow> Some (a + b)))"

section \<open>Feature engineering (\<^verbatim>\<open>load_data\<close>, lines 21-31)\<close>

definition total_score_of :: "'a student_scheme \<Rightarrow> real option" where
  "total_score_of r =
     mean_skipna [IQ_test_score r, English_test_score r,
                  technical_test_score r, Soft_skills_Score r]"

definition risk_score_of :: "'a student_scheme \<Rightarrow> real option" where
  "risk_score_of r =
     add (add (add (mul (rsub 100 (technical_test_score r)) 0.4)
                   (mul (rsub 100 (Soft_skills_Score r)) 0.3))
              (mul (rsub 100 (English_test_score r)) 0.2))
         (mul (rsub 100 (IQ_test_score r)) 0.1)"

definition derive_row :: "student \<Rightarrow> scored_student" where
  "derive_row r =
     \<lparr> student_id = student_id r,
       IQ_test_score = IQ_test_score r,
       English_test_score = English_test_score r,
       technical_test_score = technical_test_score r,
       Soft_skills_Score = Soft_skills_Score r,
       gpa = gpa r,
       Result = Result r,
       financial_aid = financial_aid r,
       english_level = english_level r,
       total_score = total_score_of r,
       risk_score = risk_score_of r \<rparr>"

text \<open>\<^verbatim>\<open>load_data\<close>, given the rows that \<^verbatim>\<open>read_csv\<close> parsed.\<close>

definition load_data :: "student list \<Rightarrow> scored_student list" where
  "load_data data = map derive_row data"

text \<open>A row of test data: the four raw scores are the parameters.\<close>

definition scores_row ::
  "real option \<Rightarrow> real option \<Rightarrow> real option \<Rightarrow> real option \<Rightarrow> student" where
  "scores_row iq en te so =
     \<lparr> student_id = ''s1'',
       IQ_test_score = iq,
       English_test_score = en,
       technical_test_score = te,
       Soft_skills_Score = so,
       gpa = Some 3,
       Result = ''Accepted'',
       financial_aid = ''yes'',
       english_level = ''B2'' \<rparr>"

section \<open>The filter (lines 41-61)\<close>

text \<open>
  The sidebar widgets return the criteria: the list chosen in the multiselect, the two
  selectbox choices (the string \<^verbatim>\<open>'All'\<close> or a value of the column) and the pair of the
  range slider.
\<close>

record criteria =
  result_filter :: "string list"
  financial_filter :: string
  english_filter :: string
  gpa_range :: "real \<times> real"

text \<open>\<^verbatim>\<open>Series.isin(values)\<close>, for one cell.\<close>

definition isin :: "'a \<Rightarrow> 'a list \<Rightarrow> bool" where
  "isin v vs = (v \<in> set vs)"

text \<open>
  \<^verbatim>\<open>Series.between(left, right)\<close> with the default \<^verbatim>\<open>inclusive='both'\<close>, for one cell:
  \<^verbatim>\<open>(s >= left) & (s <= right)\<close>. A comparison with NaN is false.
\<close>

definition between :: "real option \<Rightarrow> real \<Rightarrow> real \<Rightarrow> bool" where
  "between x left right = (case x of None \<Rightarrow> False | Some v \<Rightarrow> left \<le> v \<and> v \<le> right)"

text \<open>The boolean mask of lines 57-60, for one row.\<close>

definition mask :: "criteria \<Rightarrow> 'a student_scheme \<Rightarrow> bool" where
  "mask c r =
     (isin (Result r) (result_filter c) \<and>
      (if financial_filter c \<noteq> ''All'' then financial_aid r = financial_filter c else True) \<and>
      (if english_filter c \<noteq> ''All'' then english_level r = english_filter c else True) \<and>
      between (gpa r) (fst (gpa_range c)) (snd (gpa_range c)))"

text \<open>\<^verbatim>\<open>df[mask]\<close>: the rows whose mask is true, in the order of \<^verbatim>\<open>df\<close>.\<close>

definition filtered_df :: "'a student_scheme list \<Rightarrow> criteria \<Rightarrow> 'a student_scheme list" where
  "filtered_df df c = filter (mask c) df"

text \<open>
  The errors the claims speak of. \<open>KeyError\<close> is what \<^verbatim>\<open>.loc\<close> raises on a missing label.
  \<open>InvalidRangeError\<close> is the specification's name for a rejected range; nothing in
  \<^verbatim>\<open>app.py\<close> raises it.
\<close>

datatype error = InvalidRangeError | KeyError

text \<open>
  The outcome of the filter statement. Lines 56-61 are one indexing expression over
  comparisons: it has no check of the range and no branch that raises, so the outcome is
  always a table.
\<close>

definition filter_outcome ::
  "'a student_scheme list \<Rightarrow> criteria \<Rightarrow> error + 'a student_scheme list" where
  "filter_outcome df c = Inr (filtered_df df c)"

text \<open>
  The specification's wording of the filter, to compare with \<open>mask\<close>: \<open>Result\<close> is a member
  of \<open>resultIn\<close>, each of the two exact-match criteria is the sentinel or equals the row's
  value, and \<open>gpa\<close> lies in the closed interval.
\<close>

definition spec_keeps :: "criteria \<Rightarrow> 'a student_scheme \<Rightarrow> bool" where
  "spec_keeps c r =
     (Result r \<in> set (result_filter c) \<and>
      (financial_filter c = ''All'' \<or> financial_aid r = financial_filter c) \<and>
      (english_filter c = ''All'' \<or> english_level r = english_filter c) \<and>
      (\<exists>g. gpa r = Some g \<and> g \<in> {fst (gpa_range c) .. snd (gpa_range c)}))"

text \<open>Test data: a row with a given \<open>gpa\<close>, outcome and financial aid; criteria.\<close>

definition sample_row :: "real option \<Rightarrow> string \<Rightarrow> string \<Rightarrow> student" where
  "sample_row g res fin =
     \<lparr> student_id = ''s1'',
       IQ_test_score = Some 80,
       English_test_score = Some 80,
       technical_test_score = Some 80,
       Soft_skills_Score = Some 80,
       gpa = g,
       Result = res,
       financial_aid = fin,
       english_level = ''B2'' \<rparr>"

definition gpa_row :: "real option \<Rightarrow> student" where
  "gpa_row g = sample_row g ''Accepted'' ''yes''"

definition all_criteria :: "real \<Rightarrow> real \<Rightarrow> criteria" where
  "all_criteria lo hi =
     \<lparr> result_filter = [''Accepted'', ''pending'', ''drop out''],
       financial_filter = ''All'',
       english_filter = ''All'',
       gpa_range = (lo, hi) \<rparr>"

section \<open>Aggregation helpers (lines 36-37, 111-112, 131, 176)\<close>

definition score_cols :: "('a student_scheme \<Rightarrow> real option) list" where
  "score_cols = [IQ_test_score, English_test_score, technical_test_score, Soft_skills_Score]"

definition result_order :: "string list" where
  "result_order = [''Accepted'', ''pending'', ''drop out'']"

text \<open>\<^verbatim>\<open>Series.unique()\<close>: the distinct values, in order of first appearance.\<close>

fun unique :: "'a list \<Rightarrow> 'a list" where
  "unique [] = []"
| "unique (x # xs) = x # removeAll x (unique xs)"

text \<open>
  Line 111: the entries of the order that occur in the \<open>Result\<close> column, in the order's
  sequence.
\<close>

definition available_results :: "'a student_scheme list \<Rightarrow> string list \<Rightarrow> string list" where
  "available_results df order = filter (\<lambda>r. r \<in> set (unique (map Result df))) order"

text \<open>
  \<^verbatim>\<open>groupby('Result')[score_cols].mean()\<close>: one row per distinct \<open>Result\<close> of the table,
  the group keys sorted; the row of a group holds, for each score column, the mean of the
  defined values of that column over the rows of the group.
\<close>

definition group_rows :: "'a student_scheme list \<Rightarrow> string \<Rightarrow> 'a student_scheme list" where
  "group_rows df g = filter (\<lambda>r. Result r = g) df"

definition group_means :: "'a student_scheme list \<Rightarrow> string \<Rightarrow> real option list" where
  "group_means df g = map (\<lambda>col. mean_skipna (map col (group_rows df g))) score_cols"

definition groupby_mean :: "'a student_scheme list \<Rightarrow> (string \<times> real option list) list" where
  "groupby_mean df = map (\<lambda>g. (g, group_means df g)) (sort (unique (map Result df)))"

text \<open>
  \<^verbatim>\<open>.loc[labels]\<close> with a list of labels: the rows with these labels, in the sequence of
  the list; a label that is not in the index raises \<^verbatim>\<open>KeyError\<close>.
\<close>

fun loc :: "(string \<times> 'v) list \<Rightarrow> string list \<Rightarrow> error + (string \<times> 'v) list" where
  "loc frame [] = Inr []"
| "loc frame (k # ks) =
     (case map_of frame k of
        None \<Rightarrow> Inl KeyError
      | Some v \<Rightarrow> (case loc frame ks of
                    Inl e \<Rightarrow> Inl e
                  | Inr rest \<Rightarrow> Inr ((k, v) # rest)))"

text \<open>
  Line 112, \<^verbatim>\<open>mean_scores\<close>, for a table and an order. The final \<^verbatim>\<open>.T\<close> swaps the axes
  of the frame and leaves its cells as they are: a group is a row here and a column
  there.
\<close>

definition mean_scores ::
  "'a student_scheme list \<Rightarrow> string list \<Rightarrow> error + (string \<times> real option list) list" where
  "mean_scores df order = loc (groupby_mean df) (available_results df order)"

text \<open>
  \<^verbatim>\<open>DataFrame.nlargest(n, column)\<close> with the default \<^verbatim>\<open>keep='first'\<close>. pandas is a
  library, not part of \<^verbatim>\<open>app.py\<close>; the model follows the three branches of its
  selection routine.

  The whole table in descending order of the column, equal values in their original
  order: the rows whose cell is NaN are set aside, the others are sorted on the negated
  value by a stable sort (a merge sort), and the NaN rows are put after them.
\<close>

definition full_order :: "('r \<Rightarrow> real option) \<Rightarrow> 'r list \<Rightarrow> 'r list" where
  "full_order col df =
     sort_key (\<lambda>r. - the (col r)) (filter (\<lambda>r. col r \<noteq> None) df)
       @ filter (\<lambda>r. col r = None) df"

text \<open>The branch for \<open>0 < n < |df|\<close>: the first \<open>n\<close> rows of that order.\<close>

definition nlargest_fast :: "nat \<Rightarrow> ('r \<Rightarrow> real option) \<Rightarrow> 'r list \<Rightarrow> 'r list" where
  "nlargest_fast n col df = take n (full_order col df)"

text \<open>
  The branch for \<open>n \<ge> |df|\<close> calls \<^verbatim>\<open>sort_values(ascending=False).head(n)\<close>, with the
  default sort kind, which is not a stable sort: the rows come back in descending order
  with the NaN rows last and in their original order, and the sequence among rows of
  equal value is left to the library. \<open>sort_values_returns col df s\<close> says that \<open>s\<close> is
  such a result.
\<close>

definition sort_values_returns :: "('r \<Rightarrow> real option) \<Rightarrow> 'r list \<Rightarrow> 'r list \<Rightarrow> bool" where
  "sort_values_returns col df s =
     (mset s = mset df \<and>
      sorted_wrt (\<lambda>a b. col b \<le> col a) s \<and>
      filter (\<lambda>r. col r = None) s = filter (\<lambda>r. col r = None) df)"

text \<open>
  \<open>nlargest n col df res\<close>: the call may return \<open>res\<close>. With \<open>n \<le> 0\<close> the result is
  empty; with \<open>n \<ge> |df|\<close> it is the sorted table (\<^verbatim>\<open>head(n)\<close> keeps all of its rows);
  otherwise it is determined.
\<close>

definition nlargest :: "nat \<Rightarrow> ('r \<Rightarrow> real option) \<Rightarrow> 'r list \<Rightarrow> 'r list \<Rightarrow> bool" where
  "nlargest n col df res =
     (if n = 0 then res = []
      else if length df \<le> n then sort_values_returns col df res
      else res = nlargest_fast n col df)"

text \<open>Line 176.\<close>

definition high_risk ::
  "'a scored_student_scheme list \<Rightarrow> 'a scored_student_scheme list \<Rightarrow> bool" where
  "high_risk df res = nlargest 10 risk_score df res"

text \<open>
  \<^verbatim>\<open>DataFrame.corr()\<close> (Pearson, \<^verbatim>\<open>min_periods=1\<close>) for one pair of columns: over the rows
  where both cells are defined, the covariance divided by the root of the product of the
  two sums of squared deviations; NaN when there is no such row or when the divisor is 0.
\<close>

fun pairwise_complete :: "real option list \<Rightarrow> real option list \<Rightarrow> (real \<times> real) list" where
  "pairwise_complete (Some a # xs) (Some b # ys) = (a, b) # pairwise_complete xs ys"
| "pairwise_complete (_ # xs) (_ # ys) = pairwise_complete xs ys"
| "pairwise_complete _ _ = []"

definition pearson :: "(real \<times> real) list \<Rightarrow> real option" where
  "pearson ps =
     (let nobs = length ps in
      if nobs < 1 then None
      else
        let meanx = sum_list (map fst ps) / real nobs;
            meany = sum_list (map snd ps) / real nobs;
            ssqdm_x = sum_list (map (\<lambda>(x, y). (x - meanx) * (x - meanx)) ps);
            ssqdm_y = sum_list (map (\<lambda>(x, y). (y - meany) * (y - meany)) ps);
            covxy = sum_list (map (\<lambda>(x, y). (x - meanx) * (y - meany)) ps);
            divisor = sqrt (ssqdm_x * ssqdm_y)
        in if divisor \<noteq> 0 then Some (covxy / divisor) else None)"

text \<open>Line 131: the matrix over \<^verbatim>\<open>score_cols + ['gpa']\<close>.\<close>

definition corr_cols :: "('a student_scheme \<Rightarrow> real option) list" where
  "corr_cols = score_cols @ [gpa]"

definition corr_matrix :: "'a student_scheme list \<Rightarrow> real option list list" where
  "corr_matrix df =
     map (\<lambda>a. map (\<lambda>b. pearson (pairwise_complete (map a df) (map b df))) corr_cols) corr_cols"


section \<open>Derived metrics\<close>

lemma dropna_empty_iff: "dropna xs = [] \<longleftrightarrow> (\<forall>x \<in> set xs. x = None)"
  by (induction xs rule: dropna.induct) auto

lemma mean_skipna_None_iff: "mean_skipna xs = None \<longleftrightarrow> (\<forall>x \<in> set xs. x = None)"
  by (simp add: mean_skipna_def Let_def dropna_empty_iff)

text \<open>
  C1, as the specification states it, fails: \<^verbatim>\<open>mean(axis=1)\<close> skips NaN, so a row with
  one missing raw score still gets a defined \<open>total_score\<close>, the mean of the other three.
  Here the IQ score is missing and the three others are 80, 70 and 60: the total is 70.
\<close>

theorem total_score_missing_input_counterexample:
  "IQ_test_score (scores_row None (Some 80) (Some 70) (Some 60)) = None \<and>
   total_score (derive_row (scores_row None (Some 80) (Some 70) (Some 60))) = Some 70"
  by (simp add: derive_row_def total_score_of_def mean_skipna_def scores_row_def)

text \<open>
  C1 (amended): for every row, \<open>total_score\<close> is the arithmetic mean of those of the four
  raw scores that are defined: the mean of all four when all four are defined, and the
  sum of the defined ones divided by their number otherwise (a missing score is skipped,
  not counted as zero). \<open>total_score\<close> is undefined if and only if all four raw scores are
  undefined.
\<close>

theorem total_score_mean_of_defined:
  fixes r :: student
  defines "raw \<equiv> [IQ_test_score r, English_test_score r,
                   technical_test_score r, Soft_skills_Score r]"
  shows "(IQ_test_score r = Some a \<and> English_test_score r = Some b \<and>
          technical_test_score r = Some c \<and> Soft_skills_Score r = Some d
            \<longrightarrow> total_score (derive_row r) = Some ((a + b + c + d) / 4))
       \<and> (dropna raw \<noteq> []
            \<longrightarrow> total_score (derive_row r)
                  = Some (sum_list (dropna raw) / real (length (dropna raw))))
       \<and> (total_score (derive_row r) = None
            \<longleftrightarrow> IQ_test_score r = None \<and> English_test_score r = None \<and>
                technical_test_score r = None \<and> Soft_skills_Score r = None)"
proof -
  have t: "total_score (derive_row r) = mean_skipna raw"
    by (simp add: derive_row_def total_score_of_def raw_def)
  have all4: "total_score (derive_row r) = Some ((a + b + c + d) / 4)"
    if "IQ_test_score r = Some a" "English_test_score r = Some b"
       "technical_test_score r = Some c" "Soft_skills_Score r = Some d"
    using that by (simp add: t raw_def mean_skipna_def)
  have some: "total_score (derive_row r)
                = Some (sum_list (dropna raw) / real (length (dropna raw)))"
    if "dropna raw \<noteq> []"
    using that by (simp add: t mean_skipna_def Let_def)
  have none: "total_score (derive_row r) = None
                \<longleftrightarrow> IQ_test_score r = None \<and> English_test_score r = None \<and>
                    technical_test_score r = None \<and> Soft_skills_Score r = None"
    by (simp add: t mean_skipna_None_iff) (simp add: raw_def)
  from all4 some none show ?thesis by blast
qed

theorem total_score_mean_of_defined_witness:
  "total_score (derive_row (scores_row (Some 90) (Some 70) (Some 60) (Some 40))) = Some 65
   \<and> total_score (derive_row (scores_row None None None None)) = None"
proof -
  let ?r = "scores_row (Some 90) (Some 70) (Some 60) (Some 40)"
  let ?n = "scores_row None None None None"
  have "total_score (derive_row ?r) = Some ((90 + 70 + 60 + 40) / 4)"
    using total_score_mean_of_defined [of ?r 90 70 60 40]
    by (simp add: scores_row_def)
  moreover have "total_score (derive_row ?n) = None"
    using total_score_mean_of_defined [of ?n]
    by (simp add: scores_row_def)
  ultimately show ?thesis by simp
qed

text \<open>
  C2: for every row whose four raw scores are defined, \<open>risk_score\<close> is
  \<open>0.4 * (100 - technical) + 0.3 * (100 - soft skills) + 0.2 * (100 - english)
  + 0.1 * (100 - IQ)\<close>; a row whose four raw scores are 80 has \<open>total_score = 80\<close> and
  \<open>risk_score = 20\<close>.
\<close>

theorem risk_score_weighted_deficit:
  fixes r :: student
  shows "(IQ_test_score r = Some iq \<and> English_test_score r = Some en \<and>
          technical_test_score r = Some te \<and> Soft_skills_Score r = Some so
            \<longrightarrow> risk_score (derive_row r)
                  = Some (0.4 * (100 - te) + 0.3 * (100 - so)
                          + 0.2 * (100 - en) + 0.1 * (100 - iq)))
       \<and> total_score (derive_row (scores_row (Some 80) (Some 80) (Some 80) (Some 80)))
           = Some 80
       \<and> risk_score (derive_row (scores_row (Some 80) (Some 80) (Some 80) (Some 80)))
           = Some 20"
proof -
  have gen: "risk_score (derive_row r)
               = Some (0.4 * (100 - te) + 0.3 * (100 - so)
                       + 0.2 * (100 - en) + 0.1 * (100 - iq))"
    if "IQ_test_score r = Some iq" "English_test_score r = Some en"
       "technical_test_score r = Some te" "Soft_skills_Score r = Some so"
    using that
    by (simp add: derive_row_def risk_score_of_def add_def mul_def rsub_def algebra_simps)
  have t80: "total_score (derive_row (scores_row (Some 80) (Some 80) (Some 80) (Some 80)))
               = Some 80"
    by (simp add: derive_row_def total_score_of_def mean_skipna_def scores_row_def)
  have r80: "risk_score (derive_row (scores_row (Some 80) (Some 80) (Some 80) (Some 80)))
               = Some 20"
    by (simp add: derive_row_def risk_score_of_def add_def mul_def rsub_def scores_row_def)
  from gen t80 r80 show ?thesis by blast
qed

theorem risk_score_weighted_deficit_witness:
  "risk_score (derive_row (scores_row (Some 50) (Some 60) (Some 70) (Some 90))) = Some 28"
proof -
  let ?r = "scores_row (Some 50) (Some 60) (Some 70) (Some 90)"
  have "risk_score (derive_row ?r)
          = Some (0.4 * (100 - 70) + 0.3 * (100 - 90) + 0.2 * (100 - 60) + 0.1 * (100 - 50))"
    using risk_score_weighted_deficit [of ?r 50 60 70 90]
    by (simp add: scores_row_def)
  then show ?thesis by simp
qed

section \<open>The filter\<close>

lemma mask_spec_keeps: "mask c r = spec_keeps c r"
  by (auto simp: mask_def spec_keeps_def isin_def between_def split: option.splits)

text \<open>
  C3: the filtered table consists exactly of the input rows that satisfy the four
  predicates (\<open>Result\<close> in \<open>resultIn\<close>; \<open>financial_aid\<close> and \<open>english_level\<close> equal to the
  chosen value unless \<open>'All'\<close> is chosen; \<open>gpa\<close> in the closed interval), in their original
  order. With the range \<open>(2.0, 4.0)\<close>, rows with gpa \<open>1.5, 2.0, 3.0, 4.0\<close> give
  \<open>2.0, 3.0, 4.0\<close>.
\<close>

theorem filtered_df_exactly_matching_rows:
  "filtered_df T c = filter (spec_keeps c) T
   \<and> map gpa (filtered_df (map gpa_row [Some 1.5, Some 2, Some 3, Some 4]) (all_criteria 2 4))
       = [Some 2, Some 3, Some 4]"
proof -
  have "filtered_df T c = filter (spec_keeps c) T"
    unfolding filtered_df_def by (rule filter_cong) (simp_all add: mask_spec_keeps)
  moreover
  have "map gpa (filtered_df (map gpa_row [Some 1.5, Some 2, Some 3, Some 4]) (all_criteria 2 4))
          = [Some 2, Some 3, Some 4]"
    by (simp add: filtered_df_def mask_def isin_def between_def gpa_row_def sample_row_def
        all_criteria_def)
  ultimately show ?thesis by simp
qed

theorem filtered_df_exactly_matching_rows_witness:
  "filtered_df
     [sample_row (Some 3) ''pending'' ''yes'', sample_row (Some 3) ''Accepted'' ''no'',
      sample_row None ''Accepted'' ''yes'', sample_row (Some 2) ''Accepted'' ''yes'']
     ((all_criteria 0 4) \<lparr> result_filter := [''Accepted''], financial_filter := ''yes'' \<rparr>)
   = [sample_row (Some 2) ''Accepted'' ''yes'']"
  using filtered_df_exactly_matching_rows
    [of "[sample_row (Some 3) ''pending'' ''yes'', sample_row (Some 3) ''Accepted'' ''no'',
          sample_row None ''Accepted'' ''yes'', sample_row (Some 2) ''Accepted'' ''yes'']"
        "(all_criteria 0 4) \<lparr> result_filter := [''Accepted''], financial_filter := ''yes'' \<rparr>"]
  by (simp add: spec_keeps_def sample_row_def all_criteria_def)

text \<open>
  C4, as the specification states it, fails: with the range \<open>(4, 2)\<close>, where \<open>lo > hi\<close>,
  the filter returns the empty table and not \<open>InvalidRangeError\<close>.
\<close>

theorem filter_inverted_range_counterexample:
  "snd (gpa_range (all_criteria 4 2)) < fst (gpa_range (all_criteria 4 2))
   \<and> filter_outcome [gpa_row (Some 3)] (all_criteria 4 2) = Inr []
   \<and> filter_outcome [gpa_row (Some 3)] (all_criteria 4 2) \<noteq> Inl InvalidRangeError"
  by (simp add: filter_outcome_def filtered_df_def mask_def isin_def between_def gpa_row_def
      sample_row_def all_criteria_def)

text \<open>
  C4 (amended): for every criteria whose \<open>gpaRange\<close> has \<open>lo > hi\<close>, the filter does not
  fail: it returns the empty table. An empty match set is not an error either and yields
  the empty table; the filter fails on no input. (The range slider of line 48 only
  returns pairs with \<open>lo \<le> hi\<close>, and the code has no check of its own.)
\<close>

theorem filter_inverted_range_gives_empty_table:
  "(snd (gpa_range c) < fst (gpa_range c) \<longrightarrow> filter_outcome T c = Inr [])
   \<and> ((\<forall>r \<in> set T. \<not> mask c r) \<longrightarrow> filter_outcome T c = Inr [])
   \<and> (\<forall>e. filter_outcome T c \<noteq> Inl e)"
proof -
  have "\<not> mask c r" if "snd (gpa_range c) < fst (gpa_range c)" for r :: "'a student_scheme"
    using that by (auto simp: mask_def between_def split: option.splits)
  then have "filter_outcome T c = Inr []" if "snd (gpa_range c) < fst (gpa_range c)"
    using that by (simp add: filter_outcome_def filtered_df_def)
  moreover have "filter_outcome T c = Inr []" if "\<forall>r \<in> set T. \<not> mask c r"
    using that by (simp add: filter_outcome_def filtered_df_def)
  moreover have "\<forall>e. filter_outcome T c \<noteq> Inl e"
    by (simp add: filter_outcome_def)
  ultimately show ?thesis by blast
qed

theorem filter_inverted_range_gives_empty_table_witness:
  "filter_outcome [gpa_row (Some 1), gpa_row (Some 2.5), gpa_row None] (all_criteria 3 2)
     = Inr []
   \<and> filter_outcome [gpa_row (Some 1)] (all_criteria 2 4) = Inr []"
proof -
  have "snd (gpa_range (all_criteria 3 2)) < fst (gpa_range (all_criteria 3 2))"
    by (simp add: all_criteria_def)
  then have "filter_outcome [gpa_row (Some 1), gpa_row (Some 2.5), gpa_row None]
               (all_criteria 3 2) = Inr []"
    using filter_inverted_range_gives_empty_table
      [of "all_criteria 3 2" "[gpa_row (Some 1), gpa_row (Some 2.5), gpa_row None]"]
    by blast
  moreover
  have "\<forall>r \<in> set [gpa_row (Some 1)]. \<not> mask (all_criteria 2 4) r"
    by (simp add: mask_def between_def gpa_row_def sample_row_def all_criteria_def)
  then have "filter_outcome [gpa_row (Some 1)] (all_criteria 2 4) = Inr []"
    using filter_inverted_range_gives_empty_table
      [of "all_criteria 2 4" "[gpa_row (Some 1)]"]
    by blast
  ultimately show ?thesis by simp
qed

text \<open>
  C5: filtering is idempotent: filtering an already filtered table with the same
  criteria gives the same table.
\<close>

theorem filtered_df_idempotent:
  "filtered_df (filtered_df T c) c = filtered_df T c"
  by (simp add: filtered_df_def)

theorem filtered_df_idempotent_witness:
  "filtered_df (filtered_df (map gpa_row [Some 1.5, None, Some 3]) (all_criteria 2 4))
     (all_criteria 2 4)
   = [gpa_row (Some 3)]"
proof -
  have "filtered_df (map gpa_row [Some 1.5, None, Some 3]) (all_criteria 2 4)
          = [gpa_row (Some 3)]"
    by (simp add: filtered_df_def mask_def isin_def between_def gpa_row_def sample_row_def
        all_criteria_def)
  then show ?thesis
    using filtered_df_idempotent
      [of "map gpa_row [Some 1.5, None, Some 3]" "all_criteria 2 4"]
    by simp
qed

text \<open>
  C6: filtering is monotonic in the GPA dimension: when two criteria differ only in
  \<open>gpaRange\<close> and the wider range contains the narrower one, every row of the narrower
  result is a row of the wider result.
\<close>

theorem filtered_df_gpa_range_monotone:
  assumes "{lo .. hi} \<subseteq> {lo' .. hi'}"
    and "r \<in> set (filtered_df T (c \<lparr> gpa_range := (lo, hi) \<rparr>))"
  shows "r \<in> set (filtered_df T (c \<lparr> gpa_range := (lo', hi') \<rparr>))"
proof -
  from assms(2) have in_T: "r \<in> set T" and m: "mask (c \<lparr> gpa_range := (lo, hi) \<rparr>) r"
    by (simp_all add: filtered_df_def)
  from m obtain g where g: "gpa r = Some g" "g \<in> {lo .. hi}"
    by (auto simp: mask_def between_def split: option.splits)
  with assms(1) have "g \<in> {lo' .. hi'}" by blast
  with m g(1) have "mask (c \<lparr> gpa_range := (lo', hi') \<rparr>) r"
    by (simp add: mask_def between_def)
  with in_T show ?thesis by (simp add: filtered_df_def)
qed

theorem filtered_df_gpa_range_monotone_witness:
  "gpa_row (Some 3) \<in> set (filtered_df (map gpa_row [Some 1, Some 3]) (all_criteria 0 4))"
proof -
  have sub: "{2 .. 3.5} \<subseteq> {0 .. (4::real)}" by simp
  have narrow: "gpa_row (Some 3)
      \<in> set (filtered_df (map gpa_row [Some 1, Some 3])
               ((all_criteria 0 4) \<lparr> gpa_range := (2, 3.5) \<rparr>))"
    by (simp add: filtered_df_def mask_def isin_def between_def gpa_row_def sample_row_def
        all_criteria_def)
  have "(all_criteria 0 4) \<lparr> gpa_range := (0, 4) \<rparr> = all_criteria 0 4"
    by (simp add: all_criteria_def)
  with filtered_df_gpa_range_monotone [OF sub narrow] show ?thesis by simp
qed

text \<open>
  C10: the GPA predicate has no sentinel: for every criteria, every row of the filtered
  table has a defined \<open>gpa\<close> inside the chosen interval; a row whose \<open>gpa\<close> is missing or
  outside the interval is excluded, also under the widest range \<open>[0.0, 4.0]\<close> of the
  slider. The exported CSV is the serialisation of this filtered table (line 244).
\<close>

theorem gpa_predicate_never_vacuous:
  "(\<forall>r \<in> set (filtered_df T c).
       \<exists>g. gpa r = Some g \<and> fst (gpa_range c) \<le> g \<and> g \<le> snd (gpa_range c))
   \<and> (\<forall>r. gpa r = None \<longrightarrow> r \<notin> set (filtered_df T (c \<lparr> gpa_range := (0, 4) \<rparr>)))
   \<and> (\<forall>r g. gpa r = Some g \<and> (g < fst (gpa_range c) \<or> snd (gpa_range c) < g)
         \<longrightarrow> r \<notin> set (filtered_df T c))"
  by (auto simp: filtered_df_def mask_def between_def split: option.splits)

theorem gpa_predicate_never_vacuous_witness:
  "gpa_row None \<notin> set (filtered_df [gpa_row None, gpa_row (Some 5)] (all_criteria 0 4))
   \<and> gpa_row (Some 5) \<notin> set (filtered_df [gpa_row None, gpa_row (Some 5)] (all_criteria 0 4))"
proof -
  let ?T = "[gpa_row None, gpa_row (Some 5)]"
  have c: "(all_criteria 0 4) \<lparr> gpa_range := (0, 4) \<rparr> = all_criteria 0 4"
    by (simp add: all_criteria_def)
  have n: "gpa (gpa_row None) = None" and f: "gpa (gpa_row (Some 5)) = Some 5"
    by (simp_all add: gpa_row_def sample_row_def)
  have hi: "snd (gpa_range (all_criteria 0 4)) < (5::real)"
    by (simp add: all_criteria_def)
  from gpa_predicate_never_vacuous [of ?T "all_criteria 0 4"] n c
  have "gpa_row None \<notin> set (filtered_df ?T (all_criteria 0 4))" by metis
  moreover
  from gpa_predicate_never_vacuous [of ?T "all_criteria 0 4"] f hi
  have "gpa_row (Some 5) \<notin> set (filtered_df ?T (all_criteria 0 4))" by blast
  ultimately show ?thesis by simp
qed

section \<open>Top-N selection\<close>














section \<open>Grouped means\<close>

lemma set_unique: "set (unique xs) = set xs"
  by (induction xs) auto

lemma map_of_keyed: "map_of (map (\<lambda>k. (k, f k)) ks) k = (if k \<in> set ks then Some (f k) else None)"
  by (induction ks) auto

lemma groupby_mean_lookup:
  "map_of (groupby_mean df) g = (if g \<in> Result ` set df then Some (group_means df g) else None)"
  by (simp add: groupby_mean_def map_of_keyed set_unique)

lemma loc_present:
  "\<forall>k \<in> set ks. map_of frame k \<noteq> None \<Longrightarrow>
   loc frame ks = Inr (map (\<lambda>k. (k, the (map_of frame k))) ks)"
  by (induction ks) auto

lemma mean_scores_eq:
  "mean_scores df order
     = Inr (map (\<lambda>g. (g, group_means df g)) (filter (\<lambda>g. g \<in> Result ` set df) order))"
proof -
  let ?av = "available_results df order"
  have av: "?av = filter (\<lambda>g. g \<in> Result ` set df) order"
    by (simp add: available_results_def set_unique)
  have "\<forall>k \<in> set ?av. map_of (groupby_mean df) k \<noteq> None"
    by (simp add: av groupby_mean_lookup)
  then have "loc (groupby_mean df) ?av = Inr (map (\<lambda>k. (k, the (map_of (groupby_mean df) k))) ?av)"
    by (rule loc_present)
  also have "map (\<lambda>k. (k, the (map_of (groupby_mean df) k))) ?av = map (\<lambda>g. (g, group_means df g)) ?av"
    by (rule map_cong) (simp_all add: av groupby_mean_lookup)
  finally show ?thesis by (simp add: mean_scores_def av)
qed

lemma dropna_map:
  "dropna (map col xs) = map (the \<circ> col) (filter (\<lambda>r. col r \<noteq> None) xs)"
proof (induction xs)
  case Nil
  show ?case by simp
next
  case (Cons x xs)
  then show ?case by (cases "col x") simp_all
qed

lemma mean_skipna_map:
  "mean_skipna (map col xs) =
     (if \<forall>r \<in> set xs. col r = None then None
      else Some (sum_list (map (the \<circ> col) (filter (\<lambda>r. col r \<noteq> None) xs))
                 / real (length (filter (\<lambda>r. col r \<noteq> None) xs))))"
proof -
  have e: "dropna (map col xs) = [] \<longleftrightarrow> (\<forall>r \<in> set xs. col r = None)"
    by (simp add: dropna_empty_iff)
  show ?thesis
    unfolding mean_skipna_def Let_def e
    by (simp add: dropna_map)
qed

text \<open>
  C8: for every table and order, \<open>mean_scores\<close> does not fail and emits the groups whose
  keys are the entries of the order that occur in the \<open>Result\<close> column of the table, in
  the order's sequence (one group per key when the order has no repetition). So no
  emitted group is absent from the table. The group of key \<open>g\<close> carries four means, of
  \<open>IQ_test_score\<close>, \<open>English_test_score\<close>, \<open>technical_test_score\<close> and \<open>Soft_skills_Score\<close>
  in this sequence, each taken over the rows of the table whose \<open>Result\<close> is \<open>g\<close>: the sum
  of the column's defined values in these rows divided by their number, undefined when
  none is defined. When every row of the group has a value in the column, this is the sum
  over all rows of the group divided by the number of rows of the group.
\<close>

theorem mean_scores_groups:
  fixes df :: "'a student_scheme list"
  defines "rows \<equiv> \<lambda>g. filter (\<lambda>r. Result r = g) df"
  defines "mean_of \<equiv> \<lambda>col g.
     (if \<forall>r \<in> set (rows g). col r = None then None
      else Some (sum_list (map (the \<circ> col) (filter (\<lambda>r. col r \<noteq> None) (rows g)))
                 / real (length (filter (\<lambda>r. col r \<noteq> None) (rows g)))))"
  shows "\<exists>groups. mean_scores df order = Inr groups
     \<and> map fst groups = filter (\<lambda>g. g \<in> Result ` set df) order
     \<and> (distinct order \<longrightarrow> distinct (map fst groups))
     \<and> (\<forall>(g, means) \<in> set groups.
          g \<in> Result ` set df \<and> g \<in> set order
          \<and> means = [mean_of IQ_test_score g, mean_of English_test_score g,
                     mean_of technical_test_score g, mean_of Soft_skills_Score g]
          \<and> (\<forall>col \<in> {IQ_test_score, English_test_score,
                       technical_test_score, Soft_skills_Score}.
                (\<forall>r \<in> set (rows g). col r \<noteq> None) \<longrightarrow>
                  mean_of col g
                    = Some (sum_list (map (the \<circ> col) (rows g)) / real (length (rows g)))))"
proof -
  let ?groups = "map (\<lambda>g. (g, group_means df g)) (filter (\<lambda>g. g \<in> Result ` set df) order)"
  have a: "mean_scores df order = Inr ?groups" by (rule mean_scores_eq)
  have b: "map fst ?groups = filter (\<lambda>g. g \<in> Result ` set df) order"
    by (simp add: comp_def)
  have d: "distinct order \<longrightarrow> distinct (map fst ?groups)"
    unfolding b by simp
  have gm: "group_means df g
              = [mean_of IQ_test_score g, mean_of English_test_score g,
                 mean_of technical_test_score g, mean_of Soft_skills_Score g]" for g
    unfolding group_means_def score_cols_def group_rows_def mean_of_def rows_def
    by (simp only: list.map mean_skipna_map)
  have full: "mean_of col g = Some (sum_list (map (the \<circ> col) (rows g)) / real (length (rows g)))"
    if g: "g \<in> Result ` set df" and all: "\<forall>r \<in> set (rows g). col r \<noteq> None"
    for col :: "'a student_scheme \<Rightarrow> real option" and g
  proof -
    from g obtain r where "r \<in> set (rows g)" by (auto simp: rows_def)
    with all have ne: "\<not> (\<forall>r \<in> set (rows g). col r = None)" by blast
    from all have f: "filter (\<lambda>r. col r \<noteq> None) (rows g) = rows g" by simp
    have "mean_of col g
            = Some (sum_list (map (the \<circ> col) (filter (\<lambda>r. col r \<noteq> None) (rows g)))
                    / real (length (filter (\<lambda>r. col r \<noteq> None) (rows g))))"
      unfolding mean_of_def by (simp only: ne if_False)
    then show ?thesis unfolding f .
  qed
  have e: "case p of (g, means) \<Rightarrow>
          g \<in> Result ` set df \<and> g \<in> set order
          \<and> means = [mean_of IQ_test_score g, mean_of English_test_score g,
                     mean_of technical_test_score g, mean_of Soft_skills_Score g]
          \<and> (\<forall>col \<in> {IQ_test_score, English_test_score,
                       technical_test_score, Soft_skills_Score}.
                (\<forall>r \<in> set (rows g). col r \<noteq> None) \<longrightarrow>
                  mean_of col g
                    = Some (sum_list (map (the \<circ> col) (rows g)) / real (length (rows g))))"
    if "p \<in> set ?groups" for p
  proof -
    from that obtain g where p: "p = (g, group_means df g)"
      and go: "g \<in> set order" and gr: "g \<in> Result ` set df"
      by auto
    from go gr gm [of g] full [OF gr] show ?thesis
      unfolding p by simp
  qed
  show ?thesis
    by (intro exI [of _ ?groups] conjI a b d ballI e)
qed

theorem mean_scores_groups_witness:
  "mean_scores
     [scores_row (Some 90) (Some 80) (Some 70) (Some 60),
      (scores_row (Some 50) (Some 40) None (Some 20)) \<lparr> Result := ''pending'' \<rparr>,
      scores_row (Some 70) (Some 60) (Some 50) (Some 40),
      (scores_row (Some 10) None None (Some 40)) \<lparr> Result := ''pending'' \<rparr>,
      (scores_row (Some 1) (Some 2) (Some 3) (Some 4)) \<lparr> Result := ''waitlist'' \<rparr>]
     result_order
   = Inr [(''Accepted'', [Some 80, Some 70, Some 60, Some 50]),
          (''pending'', [Some 30, Some 40, None, Some 30])]"
proof -
  let ?T = "[scores_row (Some 90) (Some 80) (Some 70) (Some 60),
      (scores_row (Some 50) (Some 40) None (Some 20)) \<lparr> Result := ''pending'' \<rparr>,
      scores_row (Some 70) (Some 60) (Some 50) (Some 40),
      (scores_row (Some 10) None None (Some 40)) \<lparr> Result := ''pending'' \<rparr>,
      (scores_row (Some 1) (Some 2) (Some 3) (Some 4)) \<lparr> Result := ''waitlist'' \<rparr>]"
  from mean_scores_groups [of ?T result_order]
  obtain groups where g: "mean_scores ?T result_order = Inr groups"
    and k: "map fst groups = filter (\<lambda>g. g \<in> Result ` set ?T) result_order"
    and m: "\<forall>(g, means) \<in> set groups.
          means = [(if \<forall>r \<in> set (filter (\<lambda>r. Result r = g) ?T). IQ_test_score r = None then None
                    else Some (sum_list (map (the \<circ> IQ_test_score)
                                 (filter (\<lambda>r. IQ_test_score r \<noteq> None) (filter (\<lambda>r. Result r = g) ?T)))
                               / real (length (filter (\<lambda>r. IQ_test_score r \<noteq> None)
                                                  (filter (\<lambda>r. Result r = g) ?T))))),
                   (if \<forall>r \<in> set (filter (\<lambda>r. Result r = g) ?T). English_test_score r = None then None
                    else Some (sum_list (map (the \<circ> English_test_score)
                                 (filter (\<lambda>r. English_test_score r \<noteq> None) (filter (\<lambda>r. Result r = g) ?T)))
                               / real (length (filter (\<lambda>r. English_test_score r \<noteq> None)
                                                  (filter (\<lambda>r. Result r = g) ?T))))),
                   (if \<forall>r \<in> set (filter (\<lambda>r. Result r = g) ?T). technical_test_score r = None then None
                    else Some (sum_list (map (the \<circ> technical_test_score)
                                 (filter (\<lambda>r. technical_test_score r \<noteq> None) (filter (\<lambda>r. Result r = g) ?T)))
                               / real (length (filter (\<lambda>r. technical_test_score r \<noteq> None)
                                                  (filter (\<lambda>r. Result r = g) ?T))))),
                   (if \<forall>r \<in> set (filter (\<lambda>r. Result r = g) ?T). Soft_skills_Score r = None then None
                    else Some (sum_list (map (the \<circ> Soft_skills_Score)
                                 (filter (\<lambda>r. Soft_skills_Score r \<noteq> None) (filter (\<lambda>r. Result r = g) ?T)))
                               / real (length (filter (\<lambda>r. Soft_skills_Score r \<noteq> None)
                                                  (filter (\<lambda>r. Result r = g) ?T)))))]"
    by blast
  have "filter (\<lambda>g. g \<in> Result ` set ?T) result_order = [''Accepted'', ''pending'']"
    by (simp add: result_order_def scores_row_def)
  with k obtain m1 m2 where gs: "groups = [(''Accepted'', m1), (''pending'', m2)]"
    by (auto simp: map_eq_Cons_conv)
  from m have "m1 = [Some 80, Some 70, Some 60, Some 50]"
    unfolding gs by (simp add: scores_row_def)
  moreover from m have "m2 = [Some 30, Some 40, None, Some 30]"
    unfolding gs by (simp add: scores_row_def)
  ultimately show ?thesis using g gs by simp
qed

section \<open>The empty table\<close>

text \<open>
  C9: on the empty table none of the three helpers fails: \<open>mean_scores\<close> returns the
  empty frame (no \<open>KeyError\<close>) for every order, \<open>corr_matrix\<close> returns the 5 by 5 matrix
  whose cells are all undefined, and the empty table is the one result of \<open>nlargest\<close> (so
  of \<open>high_risk\<close>).
\<close>

theorem aggregations_on_empty_table:
  "mean_scores [] order = Inr []
   \<and> corr_matrix [] = replicate 5 (replicate 5 None)
   \<and> nlargest n col [] res = (res = [])
   \<and> high_risk [] res' = (res' = [])"
proof -
  have n: "nlargest k c [] r = (r = [])" for k and c :: "'r \<Rightarrow> real option" and r
    by (auto simp: nlargest_def sort_values_returns_def)
  have "mean_scores [] order = Inr []"
    by (simp add: mean_scores_def available_results_def)
  moreover have "corr_matrix [] = replicate 5 (replicate 5 None)"
    by (simp add: corr_matrix_def corr_cols_def score_cols_def pearson_def numeral_eq_Suc)
  ultimately show ?thesis by (simp add: n high_risk_def)
qed

theorem aggregations_on_empty_table_witness:
  "mean_scores ([] :: student list) result_order = Inr []
   \<and> corr_matrix ([] :: student list) = replicate 5 (replicate 5 None)
   \<and> nlargest 10 risk_score ([] :: scored_student list) []
   \<and> high_risk ([] :: scored_student list) []"
proof -
  note e = aggregations_on_empty_table [of result_order 10 risk_score "[]" "[]"]
  from e have a: "mean_scores ([] :: student list) result_order = Inr []"
    by (rule conjunct1)
  from e have b: "corr_matrix ([] :: student list) = replicate 5 (replicate 5 None)"
    by (rule conjunct2 [THEN conjunct1])
  from e have "nlargest 10 risk_score ([] :: scored_student list) [] = ([] = ([] :: scored_student list))"
    by (rule conjunct2 [THEN conjunct2, THEN conjunct1])
  then have c: "nlargest 10 risk_score ([] :: scored_student list) []" by simp
  from e have "high_risk ([] :: scored_student list) [] = ([] = ([] :: scored_student list))"
    by (rule conjunct2 [THEN conjunct2, THEN conjunct2])
  then have d: "high_risk ([] :: scored_student list) []" by simp
  from a b c d show ?thesis by simp
qed

end
